theory Spec2Isabelle
  imports Main
begin

section \<open>Strings, characters and the regular expressions of the generator\<close>

text \<open>
  A JavaScript string is modelled by a \<^typ>\<open>string\<close>: one \<^typ>\<open>char\<close> per code unit, for
  strings whose code units are all below 256. The character classes below are the
  JavaScript ones cut down to that range.
\<close>

abbreviation sq :: char where "sq \<equiv> CHR 0x27"
abbreviation dq :: char where "dq \<equiv> CHR 0x22"
abbreviation bs :: char where "bs \<equiv> CHR 0x5C"
abbreviation tab :: char where "tab \<equiv> CHR 0x09"
abbreviation nl :: char where "nl \<equiv> CHR 0x0A"

text \<open>\<open>\w\<close>: ASCII letters, digits and the underscore.\<close>

definition is_word :: "char \<Rightarrow> bool" where
  "is_word c = (let n = (of_char c :: nat) in
     (48 \<le> n \<and> n \<le> 57) \<or> (65 \<le> n \<and> n \<le> 90) \<or> n = 95 \<or> (97 \<le> n \<and> n \<le> 122))"

text \<open>\<open>\s\<close>: tab, line feed, vertical tab, form feed, carriage return, space, no-break space.\<close>

definition is_space :: "char \<Rightarrow> bool" where
  "is_space c = (let n = (of_char c :: nat) in (9 \<le> n \<and> n \<le> 13) \<or> n = 32 \<or> n = 160)"

text \<open>\<open>.\<close> (without the \<open>s\<close> flag): any character but a line terminator.\<close>

definition is_dot :: "char \<Rightarrow> bool" where
  "is_dot c = (let n = (of_char c :: nat) in n \<noteq> 10 \<and> n \<noteq> 13)"

text \<open>
  \<open>[\w\s]+$\<close> anchored at the start of the given text: one or more word or space characters,
  up to the end of the input.
\<close>

definition word_space_to_end :: "string \<Rightarrow> bool" where
  "word_space_to_end s = (s \<noteq> [] \<and> list_all (\<lambda>c. is_word c \<or> is_space c) s)"

text \<open>
  \<open>str.match(/::([\s\w]+)$/)\<close>: the leftmost position where the pattern matches; the result
  is capture group 1, \<open>None\<close> when \<open>match\<close> returns \<open>null\<close>.
\<close>

fun match_cast_suffix :: "string \<Rightarrow> string option" where
  "match_cast_suffix [] = None"
| "match_cast_suffix (c # s) =
     (if take 2 (c # s) = ''::'' \<and> word_space_to_end (drop 2 (c # s))
      then Some (drop 2 (c # s))
      else match_cast_suffix s)"

text \<open>
  \<open>str.match(/^('.*')(::[\w\s]+)?$/)\<close>. After the opening quote the greedy \<open>.*\<close> first
  takes as many characters as it can and gives them back one at a time; \<open>quoted_rest k r\<close>
  says that the match succeeds when \<open>.*\<close> takes exactly the first \<open>k\<close> characters of the
  text \<open>r\<close> that follows the opening quote: they are all matched by \<open>.\<close>, a quote follows,
  and what is left is the optional cast and the end of the input.
\<close>

definition quoted_rest :: "nat \<Rightarrow> string \<Rightarrow> bool" where
  "quoted_rest k r =
     (k < length r \<and> list_all is_dot (take k r) \<and> r ! k = sq \<and>
      (let t = drop (Suc k) r in (take 2 t = ''::'' \<and> word_space_to_end (drop 2 t)) \<or> t = []))"

fun greedy_dot_star :: "nat \<Rightarrow> string \<Rightarrow> nat option" where
  "greedy_dot_star 0 r = (if quoted_rest 0 r then Some 0 else None)"
| "greedy_dot_star (Suc k) r = (if quoted_rest (Suc k) r then Some (Suc k) else greedy_dot_star k r)"

text \<open>The result is capture group 1, quotes included, or \<open>None\<close> for \<open>null\<close>.\<close>

definition match_quoted_literal :: "string \<Rightarrow> string option" where
  "match_quoted_literal s =
     (case s of
        [] \<Rightarrow> None
      | c # r \<Rightarrow>
          if c = sq
          then (case greedy_dot_star (length r) r of
                  None \<Rightarrow> None
                | Some k \<Rightarrow> Some (c # take (Suc k) r))
          else None)"

text \<open>\<open>str.replace(/\\'/, "'")\<close>: the first backslash-quote pair becomes a quote (no \<open>g\<close> flag).\<close>

fun replace_first_escaped_quote :: "string \<Rightarrow> string" where
  "replace_first_escaped_quote (a # b # s) =
     (if a = bs \<and> b = sq then sq # s else a # replace_first_escaped_quote (b # s))"
| "replace_first_escaped_quote s = s"

text \<open>\<open>str.replace("'", '')\<close>: the first quote is removed (a string pattern replaces once).\<close>

definition remove_first_quote :: "string \<Rightarrow> string" where
  "remove_first_quote s = remove1 sq s"

text \<open>\<open>str.replace(/"/g, '')\<close>: every double quote is removed.\<close>

definition strip_double_quotes :: "string \<Rightarrow> string" where
  "strip_double_quotes s = filter (\<lambda>c. c \<noteq> dq) s"

text \<open>\<open>xs.join(sep)\<close>.\<close>

fun join :: "string \<Rightarrow> string list \<Rightarrow> string" where
  "join sep [] = []"
| "join sep [x] = x"
| "join sep (x # y # xs) = x @ sep @ join sep (y # xs)"

text \<open>The decimal text of an integer, as a template literal prints a number that is one.\<close>

fun dec_nat :: "nat \<Rightarrow> string" where
  "dec_nat n = (if n < 10 then [''0123456789'' ! n]
                else dec_nat (n div 10) @ [''0123456789'' ! (n mod 10)])"

definition dec_int :: "int \<Rightarrow> string" where
  "dec_int i = (if i < 0 then CHR ''-'' # dec_nat (nat (- i)) else dec_nat (nat i))"

section \<open>Property lookup on plain objects\<close>

text \<open>
  \<open>obj[key]\<close> on a plain object finds the object's own property or, failing that, a property
  of \<open>Object.prototype\<close>. The inherited values are functions (and \<open>Object.prototype\<close> itself
  for \<open>__proto__\<close>): all of them truthy. \<open>get_property\<close> is the lookup while
  \<open>Object.prototype\<close> is in its initial state.
\<close>

definition inherited_names :: "string list" where
  "inherited_names =
     [''constructor'', ''__defineGetter__'', ''__defineSetter__'', ''hasOwnProperty'',
      ''__lookupGetter__'', ''__lookupSetter__'', ''isPrototypeOf'', ''propertyIsEnumerable'',
      ''toString'', ''valueOf'', ''__proto__'', ''toLocaleString'']"

datatype 'a property = Own 'a | Inherited string | Undefined

text \<open>An object used as a dictionary: its own properties, in the order \<open>Object.keys\<close> lists them.\<close>

definition get_property :: "(string \<times> 'a) list \<Rightarrow> string \<Rightarrow> 'a property" where
  "get_property obj key =
     (case map_of obj key of
        Some v \<Rightarrow> Own v
      | None \<Rightarrow> if key \<in> set inherited_names then Inherited key else Undefined)"

section \<open>Data model\<close>

datatype js_error =
    InvalidType      \<comment> \<open>\<open>new Error('invalid type')\<close>\<close>
  | TypeError        \<comment> \<open>a property read or write on \<open>undefined\<close> or \<open>null\<close>\<close>
  | ReferenceError   \<comment> \<open>an identifier that is not bound\<close>
  | Production       \<comment> \<open>\<open>new Error("Can't use this in production. Too dangerous.")\<close>\<close>
  | NoKnexfile       \<comment> \<open>the error of \<open>require\<close> when the knexfile cannot be loaded\<close>
  | NoConfig string  \<comment> \<open>no configuration for the environment\<close>
  | NoDatabaseName
  | NoOriginalDatabase string
  | SameDatabase string
  | DbError          \<comment> \<open>a statement the database rejects\<close>

text \<open>The typedef \<open>table\<close>: a row of \<open>information_schema.tables\<close>.\<close>

record table =
  table_schema :: string
  table_name :: string
  table_type :: string

text \<open>
  The typedef \<open>indexInfo\<close>, with the three flags \<open>generate\<close> adds (\<open>single\<close>,
  \<open>multiple\<close>, \<open>error\<close>; a flag that was never set reads \<open>undefined\<close>, here \<open>False\<close>).
  The field \<open>table_name\<close> of the source is \<open>idx_table_name\<close>.
\<close>

record indexInfo =
  index_name :: string
  idx_table_name :: string
  indexed_columns :: "string list"
  is_unique :: bool
  is_primary :: bool
  is_functional :: bool
  is_partial :: bool
  single :: bool
  multiple :: bool
  error :: bool

text \<open>
  The typedef \<open>detailedColumnInfo\<close>: a row of \<open>information_schema.columns\<close>. The field
  \<open>table_name\<close> of the source is \<open>col_table_name\<close>.
\<close>

record detailedColumnInfo =
  col_table_name :: string
  column_name :: string
  ordinal_position :: int
  column_default :: "string option"
  data_type :: string
  character_maximum_length :: "int option"
  numeric_precision :: "int option"

text \<open>
  The typedef \<open>columnInfo\<close>: the column description of the query builder (\<open>type\<close>,
  \<open>maxLength\<close>, \<open>nullable\<close>, \<open>defaultValue\<close>) with the two properties this program adds,
  \<open>detailedInfo\<close> and \<open>index\<close>, absent (\<open>None\<close>) until they are set. The field \<open>nullable\<close>
  of the source is \<open>is_nullable\<close>.
\<close>

record columnInfo =
  type :: string
  maxLength :: "int option"
  is_nullable :: bool
  defaultValue :: "string option"
  detailedInfo :: "detailedColumnInfo option"
  index :: "indexInfo option"

type_synonym columns = "(string \<times> columnInfo) list"

subsection \<open>Writes that reach \<open>Object.prototype\<close>\<close>

text \<open>
  \<open>columnsInfo['__proto__']\<close> is \<open>Object.prototype\<close> itself, so the two assignments of this
  program that go through a lookup by column name, \<open>.detailedInfo = row\<close> in \<open>getColumns\<close>
  and \<open>.index = i\<close> in \<open>generate\<close>, can land there. The record below holds what has been
  written there so far. From then on every object inherits the property: a column without
  a \<open>detailedInfo\<close> or \<open>index\<close> of its own reads the inherited one (\<open>as_read\<close>), and a
  lookup under the key \<open>detailedInfo\<close> or \<open>index\<close> finds it (\<open>get_property_in\<close>).
  In the columns that \<open>getColumns\<close> and the index classifier work on, the fields
  \<open>detailedInfo\<close> and \<open>index\<close> hold the properties the column has of its own; the
  functions that read a column (\<open>getType\<close>, \<open>nullable\<close>, \<open>defaults\<close>, \<open>indexed\<close>,
  \<open>primary\<close>) are given the column as a read finds it.
\<close>

record prototype =
  proto_detailedInfo :: "detailedColumnInfo option"
  proto_index :: "indexInfo option"

definition initial_prototype :: prototype where
  "initial_prototype = \<lparr>proto_detailedInfo = None, proto_index = None\<rparr>"

definition get_property_in :: "prototype \<Rightarrow> (string \<times> 'a) list \<Rightarrow> string \<Rightarrow> 'a property" where
  "get_property_in p obj key =
     (case map_of obj key of
        Some v \<Rightarrow> Own v
      | None \<Rightarrow>
          if key \<in> set inherited_names
             \<or> (key = ''detailedInfo'' \<and> proto_detailedInfo p \<noteq> None)
             \<or> (key = ''index'' \<and> proto_index p \<noteq> None)
          then Inherited key else Undefined)"

definition as_read :: "prototype \<Rightarrow> columnInfo \<Rightarrow> columnInfo" where
  "as_read p c =
     c\<lparr>detailedInfo := (case detailedInfo c of None \<Rightarrow> proto_detailedInfo p | Some d \<Rightarrow> Some d),
        index := (case index c of None \<Rightarrow> proto_index p | Some i \<Rightarrow> Some i)\<rparr>"

subsection \<open>The logger\<close>

text \<open>
  \<open>consolidate.js\<close> takes \<open>getLogger\<close> from the module \<open>./index\<close>, and the \<open>index.js\<close> of
  the repository exports \<open>setLogger\<close> but no \<open>getLogger\<close>: the name is bound to
  \<open>undefined\<close>. Every statement \<open>getLogger().warn(...)\<close> therefore throws a TypeError at
  the call \<open>getLogger()\<close>, before the arguments of \<open>warn\<close> are evaluated, and nothing is
  ever logged. The functions below return, next to their result, the list of the entries
  they logged; it is empty throughout.
\<close>

datatype log_entry = Warn "string list"

definition getLogger_throws :: js_error where
  "getLogger_throws = TypeError"

subsection \<open>Library functions\<close>

text \<open>
  \<open>Number\<close> is built in and \<open>Str.tryParseJson\<close> belongs to the package \<open>sm-utils\<close>: both are
  parameters of the model. A number that is not \<open>NaN\<close> is given by the text a template
  literal prints for it. \<open>tryParseJson\<close> returns the parsed value, or \<open>null\<close>.
\<close>

datatype js_number = NaN | Num string

datatype json =
    JNull
  | JBool bool
  | JNum string
  | JStr string
  | JArr "json list"
  | JObj "(string \<times> json) list"

record library =
  Number :: "string \<Rightarrow> js_number"
  tryParseJson :: "string \<Rightarrow> json"

text \<open>\<open>`${v}`\<close> for a parsed value.\<close>

fun to_text :: "json \<Rightarrow> string" where
  "to_text JNull = ''null''"
| "to_text (JBool b) = (if b then ''true'' else ''false'')"
| "to_text (JNum r) = r"
| "to_text (JStr s) = s"
| "to_text (JArr xs) = join '','' (map (\<lambda>x. if x = JNull then [] else to_text x) xs)"
| "to_text (JObj ps) = ''[object Object]''"

section \<open>The catalog reader: \<open>getColumns\<close>\<close>

text \<open>
  \<open>columnsInfo[columnDetailed.column_name].detailedInfo = columnDetailed\<close> for one row. The
  write fails with a TypeError when the lookup gives \<open>undefined\<close>. Through the inherited
  \<open>__proto__\<close> it lands on \<open>Object.prototype\<close>; through any other inherited property it
  lands on a built-in function or on an object no column reads from, and nothing that the
  program reads changes.
\<close>

definition set_detailedInfo ::
  "prototype \<Rightarrow> columns \<Rightarrow> detailedColumnInfo \<Rightarrow> js_error + columns \<times> prototype" where
  "set_detailedInfo p columnsInfo columnDetailed =
     (case get_property_in p columnsInfo (column_name columnDetailed) of
        Undefined \<Rightarrow> Inl TypeError
      | Inherited n \<Rightarrow>
          Inr (columnsInfo,
               if n = ''__proto__'' then p\<lparr>proto_detailedInfo := Some columnDetailed\<rparr> else p)
      | Own c \<Rightarrow>
          Inr (map (\<lambda>(k, v). if k = column_name columnDetailed
                               then (k, v\<lparr>detailedInfo := Some columnDetailed\<rparr>)
                               else (k, v)) columnsInfo,
               p))"

text \<open>
  \<open>getColumns\<close>, as a function of the results of its two queries: the concise view
  (\<open>columnInfo()\<close>) and the rows of the detailed view. It returns the columns with the
  properties they have of their own, and what \<open>Object.prototype\<close> holds afterwards.
\<close>

fun getColumns ::
  "prototype \<Rightarrow> columns \<Rightarrow> detailedColumnInfo list \<Rightarrow> js_error + columns \<times> prototype" where
  "getColumns p columnsInfo [] = Inr (columnsInfo, p)"
| "getColumns p columnsInfo (columnDetailed # rest) =
     (case set_detailedInfo p columnsInfo columnDetailed of
        Inl e \<Rightarrow> Inl e
      | Inr (columnsInfo', p') \<Rightarrow> getColumns p' columnsInfo' rest)"

section \<open>The type mapper: \<open>getType\<close>\<close>

definition type_map :: "(string \<times> string) list" where
  "type_map =
     [(''integer'', ''integer''),
      (''character varying'', ''string''),
      (''jsonb'', ''jsonb''),
      (''timestamp with time zone'', ''timestamp''),
      (''text'', ''text''),
      (''boolean'', ''boolean''),
      (''real'', ''float''),
      (''numeric'', ''decimal''),
      (''USER-DEFINED'', ''specificType'')]"

text \<open>
  The value of the variable \<open>type\<close>: a string of the table (or \<open>'increments'\<close>), or the
  inherited property that the lookup found.
\<close>

datatype type_value = Name string | Builtin string

datatype param = PText string | PNumber int

text \<open>
  \<open>getType\<close> returns \<open>{type, extraParams}\<close>; \<open>extraParams\<close> is \<open>None\<close> while it is
  \<open>undefined\<close>. The cases of the \<open>switch\<close> are those of the source, in its order and with
  its labels. A recorded length or precision is used when it is truthy: neither \<open>null\<close>
  nor 0.
\<close>

definition getType :: "columnInfo \<Rightarrow> js_error + (type_value \<times> param list option)" where
  "getType columnInfo =
     (case get_property type_map (type columnInfo) of
        Undefined \<Rightarrow> Inl InvalidType
      | Inherited n \<Rightarrow> Inr (Builtin n, None)
      | Own t \<Rightarrow>
          if t = [] then Inl InvalidType
          else if t = ''specificType'' then
            (case defaultValue columnInfo of
               None \<Rightarrow> Inl TypeError
             | Some d \<Rightarrow>
                 (case match_cast_suffix d of
                    None \<Rightarrow> Inl TypeError
                  | Some g \<Rightarrow> Inr (Name t, Some [PText ([sq] @ g @ [sq])])))
          else if t = ''integer'' then
            (if (case defaultValue columnInfo of
                   None \<Rightarrow> False
                 | Some d \<Rightarrow> d \<noteq> [] \<and> take 7 d = ''nextval'')
             then Inr (Name ''increments'', None)
             else Inr (Name t, None))
          else if t = ''string'' then
            (case detailedInfo columnInfo of
               None \<Rightarrow> Inl TypeError
             | Some di \<Rightarrow>
                 (case character_maximum_length di of
                    None \<Rightarrow> Inr (Name t, None)
                  | Some n \<Rightarrow> if n \<noteq> 0 then Inr (Name t, Some [PNumber n]) else Inr (Name t, None)))
          else if t = ''numeric'' then
            (case detailedInfo columnInfo of
               None \<Rightarrow> Inl TypeError
             | Some di \<Rightarrow>
                 (case numeric_precision di of
                    None \<Rightarrow> Inr (Name t, None)
                  | Some n \<Rightarrow> if n \<noteq> 0 then Inr (Name t, Some [PNumber n]) else Inr (Name t, None)))
          else Inr (Name t, None))"

section \<open>Column modifiers\<close>

definition nullable :: "columnInfo \<Rightarrow> string" where
  "nullable columnInfo =
     (if (case index columnInfo of None \<Rightarrow> False | Some i \<Rightarrow> is_primary i) then ''''
      else if is_nullable columnInfo then ''.nullable()''
      else ''.notNullable()'')"

text \<open>\<open>`${type}`\<close>. A built-in function prints as its source text, \<open>Object.prototype\<close> as an object.\<close>

definition type_text :: "type_value \<Rightarrow> string" where
  "type_text t =
     (case t of
        Name s \<Rightarrow> s
      | Builtin n \<Rightarrow>
          if n = ''__proto__'' then ''[object Object]''
          else ''function '' @ (if n = ''constructor'' then ''Object'' else n) @ ''() { [native code] }'')"

text \<open>
  \<open>defaults\<close> returns the default-value modifier and the entries it logged, or throws.
  Where the parse of a number gives \<open>NaN\<close> or the parse of a boolean gives \<open>null\<close>, the
  next statement is \<open>getLogger().warn(...)\<close>, which throws.
\<close>

definition defaults :: "library \<Rightarrow> columnInfo \<Rightarrow> (js_error + string) \<times> log_entry list" where
  "defaults lib columnInfo =
     (case defaultValue columnInfo of
        None \<Rightarrow> (Inr '''', [])
      | Some d \<Rightarrow>
          (case getType columnInfo of
             Inl e \<Rightarrow> (Inl e, [])
           | Inr (t, extraParams) \<Rightarrow>
               if t = Name ''increments'' then (Inr '''', [])
               else
                 (case match_quoted_literal d of
                    Some g \<Rightarrow> (Inr (''.defaultTo('' @ replace_first_escaped_quote g @ '')''), [])
                  | None \<Rightarrow>
                      if t = Name ''numeric'' \<or> t = Name ''integer'' then
                        (case Number lib (remove_first_quote d) of
                           NaN \<Rightarrow> (Inl getLogger_throws, [])
                         | Num r \<Rightarrow> (Inr (''.defaultTo('' @ r @ '')''), []))
                      else if t = Name ''boolean'' then
                        (case tryParseJson lib (remove_first_quote d) of
                           JNull \<Rightarrow> (Inl getLogger_throws, [])
                         | v \<Rightarrow> (Inr (''.defaultTo('' @ to_text v @ '')''), []))
                      else (Inr '''', []))))"

definition indexed :: "columnInfo \<Rightarrow> string" where
  "indexed columnInfo =
     (case index columnInfo of
        None \<Rightarrow> ''''
      | Some i \<Rightarrow>
          if \<not> single i then ''''
          else if is_primary i then ''''
          else if is_unique i then ''.unique()''
          else ''.index()'')"

definition primary :: "columnInfo \<Rightarrow> string" where
  "primary columnInfo =
     (case index columnInfo of
        None \<Rightarrow> ''''
      | Some i \<Rightarrow>
          if \<not> single i then ''''
          else if is_primary i then ''.primary()''
          else '''')"

section \<open>The table definition emitter: \<open>singleTableGenerator\<close>\<close>

text \<open>\<open>`${p}`\<close> for an element of \<open>extraParams\<close>.\<close>

definition param_text :: "param \<Rightarrow> string" where
  "param_text p = (case p of PText s \<Rightarrow> s | PNumber n \<Rightarrow> dec_int n)"

text \<open>
  The body of the callback that \<open>singleTableGenerator\<close> maps over the column names. The pair
  \<open>(extra, citext)\<close> holds the variables \<open>extra\<close> and \<open>extrasDone.citext\<close>, which the
  callback updates. For a specific type other than \<open>'citext'\<close> the callback goes to
  \<open>getLogger().warn(...)\<close>, which throws. The parts of the clause are evaluated from left
  to right.
\<close>

definition column_clause ::
  "library \<Rightarrow> table \<Rightarrow> string \<times> bool \<Rightarrow> string \<Rightarrow> columnInfo \<Rightarrow>
   (js_error + string \<times> (string \<times> bool)) \<times> log_entry list" where
  "column_clause lib tbl st columnName columnInfo =
     (case getType columnInfo of
        Inl e \<Rightarrow> (Inl e, [])
      | Inr (t, extraParams) \<Rightarrow>
          if t = Name ''specificType'' \<and>
             \<not> (case extraParams of
                  Some (p # ps) \<Rightarrow> p = PText ([sq] @ ''citext'' @ [sq])
                | _ \<Rightarrow> False)
          then (Inl getLogger_throws, [])
          else
            (let st' =
                   (if t = Name ''specificType''
                    then (if snd st then fst st
                          else fst st @ [nl, tab, tab]
                               @ ''.raw('' @ [sq] @ ''CREATE EXTENSION IF NOT EXISTS CITEXT''
                               @ [sq] @ '')'',
                          True)
                    else st);
                 params =
                   (case extraParams of
                      Some (p # ps) \<Rightarrow> '', '' @ join '', '' (map param_text (p # ps))
                    | _ \<Rightarrow> [])
             in (case defaults lib columnInfo of
                   (Inl e, w) \<Rightarrow> (Inl e, w)
                 | (Inr d, w) \<Rightarrow>
                     (Inr ([tab, tab, tab] @ ''table.'' @ type_text t @ ''('' @ [sq]
                           @ columnName @ [sq] @ params @ '')'' @ primary columnInfo
                           @ nullable columnInfo @ d @ indexed columnInfo @ '';'',
                           st'),
                      w))))"

text \<open>The \<open>map\<close> over the columns, in the order of \<open>Object.keys\<close>; the first throw ends it.\<close>

fun column_clauses ::
  "library \<Rightarrow> table \<Rightarrow> string \<times> bool \<Rightarrow> columns \<Rightarrow>
   (js_error + string list \<times> (string \<times> bool)) \<times> log_entry list" where
  "column_clauses lib tbl st [] = (Inr ([], st), [])"
| "column_clauses lib tbl st ((columnName, columnInfo) # rest) =
     (case column_clause lib tbl st columnName columnInfo of
        (Inl e, w) \<Rightarrow> (Inl e, w)
      | (Inr (c, st'), w) \<Rightarrow>
          (case column_clauses lib tbl st' rest of
             (Inl e, w') \<Rightarrow> (Inl e, w @ w')
           | (Inr (cs, st''), w') \<Rightarrow> (Inr (c # cs, st''), w @ w')))"

text \<open>
  The callback mapped over the indexes that are not \<open>single\<close>. For an index that is not
  \<open>multiple\<close> either, it goes to \<open>getLogger().warn(...)\<close>, which throws.
\<close>

definition index_clause :: "indexInfo \<Rightarrow> js_error + string" where
  "index_clause i =
     (if multiple i then
        (let columnsArrStr =
               join '', '' (map (\<lambda>c. [sq] @ strip_double_quotes c @ [sq]) (indexed_columns i))
         in if is_primary i then Inr ([tab, tab, tab] @ ''table.primary(['' @ columnsArrStr @ '']);'')
            else if is_unique i \<and> multiple i
            then Inr ([tab, tab, tab] @ ''table.unique(['' @ columnsArrStr @ '']);'')
            else Inr ([tab, tab, tab] @ ''table.index(['' @ columnsArrStr @ '']);''))
      else Inl getLogger_throws)"

fun index_clauses :: "indexInfo list \<Rightarrow> js_error + string list" where
  "index_clauses [] = Inr []"
| "index_clauses (i # rest) =
     (case index_clause i of
        Inl e \<Rightarrow> Inl e
      | Inr c \<Rightarrow>
          (case index_clauses rest of
             Inl e \<Rightarrow> Inl e
           | Inr cs \<Rightarrow> Inr (c # cs)))"

text \<open>The table-level index list: \<open>indexInfo.filter(i => !i.single)\<close>.\<close>

definition table_level_indexes :: "indexInfo list \<Rightarrow> indexInfo list" where
  "table_level_indexes indexInfo = filter (\<lambda>i. \<not> single i) indexInfo"

definition singleTableGenerator ::
  "library \<Rightarrow> table \<Rightarrow> columns \<Rightarrow> indexInfo list \<Rightarrow> (js_error + string) \<times> log_entry list" where
  "singleTableGenerator lib tbl columnsInfo indexInfo =
     (case column_clauses lib tbl ([], False) columnsInfo of
        (Inl e, w) \<Rightarrow> (Inl e, w)
      | (Inr (cs, (extra, citext)), w) \<Rightarrow>
          (case index_clauses (table_level_indexes indexInfo) of
             Inl e \<Rightarrow> (Inl e, w)
           | Inr clauses \<Rightarrow>
               (let columns = join [nl] cs;
                    indexes = join [nl] clauses
                in (Inr (''exports.up = async function (knex) {'' @ [nl, tab]
                         @ ''return knex.schema'' @ extra @ [nl, tab, tab]
                         @ ''.createTable('' @ [sq] @ table_name tbl @ [sq] @ '', (table) => {''
                         @ [nl] @ columns @ (if indexes \<noteq> [] then [nl] else []) @ indexes
                         @ [nl, tab, tab] @ ''});'' @ [nl] @ ''};'' @ [nl, nl]
                         @ ''exports.down = async function (knex) {'' @ [nl, tab]
                         @ ''return knex.schema'' @ [nl, tab, tab]
                         @ ''.dropTableIfExists('' @ [sq] @ table_name tbl @ [sq] @ '');'' @ [nl]
                         @ ''};''),
                    w))))"

section \<open>The index classifier in \<open>generate\<close>\<close>

text \<open>\<open>col.index = i\<close> for the column stored under \<open>name\<close>.\<close>

definition set_index :: "columns \<Rightarrow> string \<Rightarrow> indexInfo \<Rightarrow> columns" where
  "set_index columnsInfo name i =
     map (\<lambda>(k, v). if k = name then (k, v\<lparr>index := Some i\<rparr>) else (k, v)) columnsInfo"

text \<open>
  The callback that \<open>generate\<close> maps over the fetched indexes. It returns the index with its
  flag set, the columns (one of which may have the index attached) and what
  \<open>Object.prototype\<close> holds afterwards. The test \<open>!col\<close> holds for \<open>undefined\<close> only: there
  the callback sets \<open>i.error\<close> and goes to \<open>getLogger().warn(...)\<close>, which throws. An
  inherited property passes the test, and the write \<open>col.index = i\<close> then lands on
  \<open>Object.prototype\<close> (for \<open>__proto__\<close>) or on an object no column reads from.
\<close>

definition classify_index ::
  "prototype \<Rightarrow> columns \<Rightarrow> indexInfo \<Rightarrow> js_error + indexInfo \<times> columns \<times> prototype" where
  "classify_index p columnsInfo i =
     (if length (indexed_columns i) = 1 then
        (let name = strip_double_quotes (hd (indexed_columns i))
         in case get_property_in p columnsInfo name of
              Undefined \<Rightarrow> Inl getLogger_throws
            | Inherited n \<Rightarrow>
                Inr (i\<lparr>single := True\<rparr>, columnsInfo,
                     if n = ''__proto__'' then p\<lparr>proto_index := Some (i\<lparr>single := True\<rparr>)\<rparr>
                     else p)
            | Own col \<Rightarrow>
                Inr (i\<lparr>single := True\<rparr>, set_index columnsInfo name (i\<lparr>single := True\<rparr>), p))
      else Inr (i\<lparr>multiple := True\<rparr>, columnsInfo, p))"

text \<open>The \<open>map\<close> over the fetched indexes; the first throw ends it.\<close>

fun classify_indexes ::
  "prototype \<Rightarrow> columns \<Rightarrow> indexInfo list \<Rightarrow>
   js_error + indexInfo list \<times> columns \<times> prototype" where
  "classify_indexes p columnsInfo [] = Inr ([], columnsInfo, p)"
| "classify_indexes p columnsInfo (i # rest) =
     (case classify_index p columnsInfo i of
        Inl e \<Rightarrow> Inl e
      | Inr (i', columnsInfo', p') \<Rightarrow>
          (case classify_indexes p' columnsInfo' rest of
             Inl e \<Rightarrow> Inl e
           | Inr (is', columnsInfo'', p'') \<Rightarrow> Inr (i' # is', columnsInfo'', p'')))"

section \<open>Database lifecycle (\<open>index.js\<close>)\<close>

text \<open>
  A configuration of the knexfile: \<open>client\<close>, \<open>connection.database\<close>, \<open>connection.user\<close> and
  \<open>originalDatabase\<close>; \<open>None\<close> is \<open>undefined\<close>. Each environment has a configuration
  object of its own, with a \<open>connection\<close>.
\<close>

record dbConfig =
  client :: string
  database :: "string option"
  user :: "string option"
  originalDatabase :: "string option"

text \<open>The statements passed to \<open>knex.raw\<close>, by what they do and to which database.\<close>

datatype statement =
    ConnectionLimit string
  | TerminateBackends string
  | DropDatabase string
  | CopyDatabase string string "string option"

text \<open>
  What reaches the database layer, in order: a handle made by \<open>Knex(config)\<close> (it keeps the
  connection settings it was made with), a statement, the destruction of a handle.
\<close>

datatype action = Connect dbConfig | Raw statement | Destroy dbConfig

text \<open>
  The state the functions work on: the environment variable, the knexfile (\<open>None\<close> when it
  cannot be loaded), the module variable \<open>globalKnex\<close>, whether the identifier \<open>_\<close> that
  \<open>_reducePoolToOne\<close> uses is bound (the file never binds it), the statements the database
  rejects, the text \<open>Math.random().toString(36).substring(2)\<close> will give, the actions
  performed so far and the lines logged so far.
\<close>

record world =
  NODE_ENV :: "string option"
  knexfile :: "(string \<times> dbConfig) list option"
  globalKnex :: "dbConfig option"
  lodash :: bool
  rejects :: "statement \<Rightarrow> bool"
  random :: string
  actions :: "action list"
  logged :: "string list"

definition getKnexFile :: "world \<Rightarrow> (js_error + (string \<times> dbConfig) list) \<times> world" where
  "getKnexFile w =
     (case knexfile w of
        None \<Rightarrow>
          (Inl NoKnexfile,
           w\<lparr>logged := logged w @ [''[knex-utils] No knexfile found or error in knexfile'']\<rparr>)
      | Some file \<Rightarrow> (Inr file, w))"

text \<open>The property key an environment name is used as; \<open>undefined\<close> reads \<open>'undefined'\<close>.\<close>

definition key_of :: "string option \<Rightarrow> string" where
  "key_of env = (case env of None \<Rightarrow> ''undefined'' | Some e \<Rightarrow> e)"

text \<open>\<open>if (!env) env = process.env.NODE_ENV\<close>: \<open>undefined\<close> and the empty string are falsy.\<close>

definition env_or_NODE_ENV :: "world \<Rightarrow> string option \<Rightarrow> string option" where
  "env_or_NODE_ENV w env =
     (if (case env of None \<Rightarrow> True | Some e \<Rightarrow> e = []) then NODE_ENV w else env)"

text \<open>A write to a field of the configuration object of an environment.\<close>

definition put_config :: "world \<Rightarrow> string \<Rightarrow> dbConfig \<Rightarrow> world" where
  "put_config w k c =
     w\<lparr>knexfile := map_option (map (\<lambda>(k', c'). if k' = k then (k', c) else (k', c'))) (knexfile w)\<rparr>"

definition raw :: "world \<Rightarrow> statement \<Rightarrow> (js_error + unit) \<times> world" where
  "raw w s =
     (if rejects w s then (Inl DbError, w\<lparr>actions := actions w @ [Raw s]\<rparr>)
      else (Inr (), w\<lparr>actions := actions w @ [Raw s]\<rparr>))"

text \<open>\<open>if (globalKnex) await globalKnex.destroy()\<close>.\<close>

definition destroy_global :: "world \<Rightarrow> world" where
  "destroy_global w =
     (case globalKnex w of None \<Rightarrow> w | Some h \<Rightarrow> w\<lparr>actions := actions w @ [Destroy h]\<rparr>)"

definition dropDb :: "world \<Rightarrow> string option \<Rightarrow> (js_error + unit) \<times> world" where
  "dropDb w env =
     (if NODE_ENV w = Some ''production'' \<or> env = Some ''production'' then (Inl Production, w)
      else
        (case getKnexFile w of
           (Inl e, w1) \<Rightarrow> (Inl e, w1)
         | (Inr file, w1) \<Rightarrow>
             (case get_property file (key_of env) of
                Undefined \<Rightarrow> (Inl (NoConfig (key_of env)), w1)
              | Inherited n \<Rightarrow> (Inl TypeError, w1)
              | Own dbConfig \<Rightarrow>
                  (case database dbConfig of
                     None \<Rightarrow> (Inl NoDatabaseName, w1)
                   | Some dbName \<Rightarrow>
                       if dbName = [] then (Inl NoDatabaseName, w1)
                       else
                         (let isPostgres = (client dbConfig = ''pg'');
                              tmp = dbConfig\<lparr>database :=
                                      (if isPostgres then Some ''postgres'' else None)\<rparr>;
                              w2 = put_config w1 (key_of env) tmp
                          in if \<not> lodash w2 then (Inl ReferenceError, w2)
                             else
                               (let w3 = (put_config w2 (key_of env) dbConfig)
                                           \<lparr>actions := actions w2 @ [Connect tmp]\<rparr>;
                                    w4 = (if client dbConfig = ''pg''
                                          then (case raw w3 (ConnectionLimit dbName) of
                                                  (Inl e, w') \<Rightarrow> w'
                                                | (Inr u, w') \<Rightarrow>
                                                    snd (raw w' (TerminateBackends dbName)))
                                          else w3)
                                in (case raw w4 (DropDatabase dbName) of
                                      (Inl e, w5) \<Rightarrow> (Inl e, w5)
                                    | (Inr u, w5) \<Rightarrow>
                                        (Inr (), w5\<lparr>actions := actions w5 @ [Destroy tmp]\<rparr>))))))))"

definition copyDb ::
  "world \<Rightarrow> string \<Rightarrow> string \<Rightarrow> string option \<Rightarrow> (js_error + dbConfig option) \<times> world" where
  "copyDb w oldDbName newDbName env0 =
     (let env = env_or_NODE_ENV w env0
      in if env = Some ''production'' then (Inl Production, w)
         else
           (case getKnexFile w of
              (Inl e, w1) \<Rightarrow> (Inl e, w1)
            | (Inr file, w1) \<Rightarrow>
                (case get_property file (key_of env) of
                   Undefined \<Rightarrow> (Inl (NoConfig (key_of env)), w1)
                 | p \<Rightarrow>
                     if oldDbName = newDbName then (Inl (SameDatabase oldDbName), w1)
                     else
                       (let w2 = destroy_global w1
                        in (case p of
                              Own dbConfig \<Rightarrow>
                                (let cfg1 = dbConfig\<lparr>database := Some ''postgres''\<rparr>;
                                     w3 = put_config w2 (key_of env) cfg1
                                 in if \<not> lodash w3 then (Inl ReferenceError, w3)
                                    else
                                      (let w4 = w3\<lparr>actions := actions w3 @ [Connect cfg1],
                                                   logged := logged w3 @
                                                     [''Copying DB: '' @ oldDbName @ '' to ''
                                                      @ newDbName]\<rparr>
                                       in (case raw w4 (TerminateBackends oldDbName) of
                                             (Inl e, w5) \<Rightarrow> (Inl e, w5)
                                           | (Inr u, w5) \<Rightarrow>
                                               (case raw w5 (CopyDatabase newDbName oldDbName
                                                              (user dbConfig)) of
                                                  (Inl e, w6) \<Rightarrow> (Inl e, w6)
                                                | (Inr u', w6) \<Rightarrow>
                                                    (let cfg2 = cfg1\<lparr>database := Some newDbName\<rparr>
                                                     in (Inr (Some cfg2),
                                                         (put_config w6 (key_of env) cfg2)
                                                           \<lparr>actions := actions w6 @
                                                              [Destroy cfg1, Connect cfg2],
                                                            globalKnex := Some cfg2\<rparr>))))))
                            | _ \<Rightarrow> (Inl TypeError, w2))))))"

definition copyDbForTest ::
  "world \<Rightarrow> string option \<Rightarrow> (js_error + dbConfig option) \<times> world" where
  "copyDbForTest w env0 =
     (let env = env_or_NODE_ENV w env0
      in if env = Some ''production'' then (Inl Production, w)
         else
           (case getKnexFile w of
              (Inl e, w1) \<Rightarrow> (Inl e, w1)
            | (Inr file, w1) \<Rightarrow>
                (case get_property file (key_of env) of
                   Undefined \<Rightarrow> (Inl (NoConfig (key_of env)), w1)
                 | Inherited n \<Rightarrow> (Inl TypeError, w1)
                 | Own dbConfig \<Rightarrow>
                     (case originalDatabase dbConfig of
                        None \<Rightarrow> (Inl (NoOriginalDatabase (key_of env)), w1)
                      | Some originalDb \<Rightarrow>
                          if originalDb = [] then (Inl (NoOriginalDatabase (key_of env)), w1)
                          else copyDb w1 originalDb (originalDb @ ''_copy_'' @ random w1) env))))"

definition rollbackCopyDbForTest ::
  "world \<Rightarrow> string option \<Rightarrow> (js_error + dbConfig option) \<times> world" where
  "rollbackCopyDbForTest w env0 =
     (let env = env_or_NODE_ENV w env0
      in if env = Some ''production'' then (Inl Production, w)
         else
           (case getKnexFile w of
              (Inl e, w1) \<Rightarrow> (Inl e, w1)
            | (Inr file, w1) \<Rightarrow>
                (case get_property file (key_of env) of
                   Undefined \<Rightarrow> (Inl (NoConfig (key_of env)), w1)
                 | Inherited n \<Rightarrow> (Inl TypeError, w1)
                 | Own dbConfig \<Rightarrow>
                     (case originalDatabase dbConfig of
                        None \<Rightarrow> (Inl (NoOriginalDatabase (key_of env)), w1)
                      | Some originalDb \<Rightarrow>
                          if originalDb = [] then (Inl (NoOriginalDatabase (key_of env)), w1)
                          else if database dbConfig = Some originalDb then (Inr (globalKnex w1), w1)
                          else
                            (case dropDb (destroy_global w1) env of
                               (Inl e, w2) \<Rightarrow> (Inl e, w2)
                             | (Inr u, w2) \<Rightarrow>
                                 (let cfg = dbConfig\<lparr>database := Some originalDb\<rparr>
                                  in (Inr (Some cfg),
                                      (put_config w2 (key_of env) cfg)
                                        \<lparr>actions := actions w2 @ [Connect cfg],
                                         globalKnex := Some cfg\<rparr>)))))))"

section \<open>The claims in the spec's words\<close>

text \<open>
  The merge of the two catalog views as the spec puts it: keyed by column name, every
  concise column takes the detailed row of its name (the last one, should the catalog hold
  several), and a concise column with no such row stays as it is.
\<close>

fun last_row :: "string \<Rightarrow> detailedColumnInfo list \<Rightarrow> detailedColumnInfo option" where
  "last_row k [] = None"
| "last_row k (d # ds) =
     (case last_row k ds of
        Some d' \<Rightarrow> Some d'
      | None \<Rightarrow> if column_name d = k then Some d else None)"

definition merge_views :: "columns \<Rightarrow> detailedColumnInfo list \<Rightarrow> columns" where
  "merge_views concise detailed =
     map (\<lambda>(k, c). (k, case last_row k detailed of
                          None \<Rightarrow> c
                        | Some d \<Rightarrow> c\<lparr>detailedInfo := Some d\<rparr>)) concise"

text \<open>The columns after one detailed row has been stored on the column of its name.\<close>

definition with_detail :: "columns \<Rightarrow> detailedColumnInfo \<Rightarrow> columns" where
  "with_detail cols d =
     map (\<lambda>(k, v). if k = column_name d then (k, v\<lparr>detailedInfo := Some d\<rparr>) else (k, v)) cols"



section \<open>Sample inputs\<close>

text \<open>
  A library that agrees with JavaScript at the arguments the examples below pass to it:
  \<open>Number('not_a_number')\<close> is \<open>NaN\<close>, and \<open>is_admin()\<close> is not JSON, so that
  \<open>tryParseJson\<close> gives \<open>null\<close> for it.
\<close>

definition sample_library :: library where
  "sample_library =
     \<lparr>Number = (\<lambda>s. if s = ''0'' then Num ''0'' else NaN),
      tryParseJson = (\<lambda>s. if s = ''{}'' then JObj [] else JNull)\<rparr>"

definition sample_table :: table where
  "sample_table = \<lparr>table_schema = ''public'', table_name = ''products'', table_type = ''BASE TABLE''\<rparr>"

definition sample_detail :: detailedColumnInfo where
  "sample_detail =
     \<lparr>col_table_name = ''products'', column_name = ''price'', ordinal_position = 2,
      column_default = None, data_type = ''numeric'', character_maximum_length = None,
      numeric_precision = Some 10\<rparr>"

definition status_detail :: detailedColumnInfo where
  "status_detail =
     sample_detail\<lparr>column_name := ''status'', ordinal_position := 3, data_type := ''text'',
                   numeric_precision := None\<rparr>"

text \<open>A \<open>numeric\<close> column with precision 10 and no default.\<close>

definition sample_column :: columnInfo where
  "sample_column =
     \<lparr>type = ''numeric'', maxLength = None, is_nullable = False, defaultValue = None,
      detailedInfo = Some sample_detail, index = None\<rparr>"

text \<open>An \<open>integer\<close> column fed by a sequence.\<close>

definition serial_column :: columnInfo where
  "serial_column =
     sample_column\<lparr>type := ''integer'',
                   defaultValue := Some (''nextval('' @ [sq] @ ''products_id_seq'' @ [sq]
                                         @ ''::regclass)'')\<rparr>"

text \<open>A \<open>boolean\<close> column whose default is the call of a function.\<close>

definition flag_column :: columnInfo where
  "flag_column = sample_column\<lparr>type := ''boolean'', defaultValue := Some ''is_admin()''\<rparr>"

text \<open>A \<open>text\<close> column with the default \<open>'active'::varchar\<close>.\<close>

definition status_column :: columnInfo where
  "status_column =
     sample_column\<lparr>type := ''text'',
                   defaultValue := Some ([sq] @ ''active'' @ [sq] @ ''::varchar'')\<rparr>"

definition sample_columns :: columns where
  "sample_columns = [(''price'', sample_column), (''status'', status_column)]"

text \<open>The concise view of the two columns, before any detailed row is merged in.\<close>

definition concise_columns :: columns where
  "concise_columns =
     [(''price'', sample_column\<lparr>detailedInfo := None\<rparr>),
      (''status'', status_column\<lparr>detailedInfo := None\<rparr>)]"

text \<open>
  Three fetched indexes: a unique one on \<open>status\<close>, one on the expression
  \<open>lower(status)\<close> (the catalog reports the text of the expression as its only indexed
  column), and one over two columns.
\<close>

definition status_index :: indexInfo where
  "status_index =
     \<lparr>index_name = ''products_status_unique'', idx_table_name = ''products'',
      indexed_columns = [''status''], is_unique = True, is_primary = False,
      is_functional = False, is_partial = False, single = False, multiple = False,
      error = False\<rparr>"

definition lower_index :: indexInfo where
  "lower_index =
     status_index\<lparr>index_name := ''products_lower_status_idx'',
                  indexed_columns := [''lower(status)''], is_unique := False,
                  is_functional := True\<rparr>"

definition pair_index :: indexInfo where
  "pair_index =
     status_index\<lparr>index_name := ''products_pair_idx'',
                  indexed_columns := [''price'', [dq] @ ''status'' @ [dq]],
                  is_unique := False\<rparr>"

text \<open>A knexfile with a development and a production environment, and a state around it.\<close>

definition sample_config :: dbConfig where
  "sample_config =
     \<lparr>client = ''pg'', database = Some ''shop'', user = Some ''app'',
      originalDatabase = Some ''shop''\<rparr>"

definition sample_world :: world where
  "sample_world =
     \<lparr>NODE_ENV = Some ''development'',
      knexfile = Some [(''development'', sample_config),
                       (''production'', sample_config\<lparr>database := Some ''shop_live''\<rparr>)],
      globalKnex = None, lodash = True, rejects = (\<lambda>s. False), random = ''k3x9'',
      actions = [], logged = []\<rparr>"

section \<open>Property lookup\<close>

lemmas lookup_defs = get_property_def type_map_def inherited_names_def

lemma get_property_in_own:
  assumes "k \<in> set (map fst obj)"
  shows "get_property_in p obj k = Own (the (map_of obj k))"
proof (cases "map_of obj k")
  case None
  then have "k \<notin> set (map fst obj)" by (simp add: map_of_eq_None_iff)
  with assms show ?thesis by simp
next
  case (Some v)
  then show ?thesis by (simp add: get_property_in_def)
qed

text \<open>While nothing has been written onto \<open>Object.prototype\<close>, a column reads as it is.\<close>

lemma as_read_initial: "as_read initial_prototype c = c"
  by (cases "detailedInfo c"; cases "index c") (simp_all add: as_read_def initial_prototype_def)

lemma get_property_in_initial: "get_property_in initial_prototype obj k = get_property obj k"
  by (simp add: get_property_in_def get_property_def initial_prototype_def)

section \<open>The catalog reader\<close>

lemma with_detail_keys: "map fst (with_detail cols d) = map fst cols"
  by (induction cols) (auto simp add: with_detail_def)

lemma set_detailedInfo_own:
  "column_name d \<in> set (map fst cols) \<Longrightarrow>
   set_detailedInfo p cols d = Inr (with_detail cols d, p)"
  by (simp add: set_detailedInfo_def get_property_in_own with_detail_def)

lemma merge_entry:
  "(case last_row k rest of
      None \<Rightarrow> (if k = column_name d then c\<lparr>detailedInfo := Some d\<rparr> else c)
    | Some d' \<Rightarrow>
        (if k = column_name d then c\<lparr>detailedInfo := Some d\<rparr> else c)
          \<lparr>detailedInfo := Some d'\<rparr>) =
   (case last_row k (d # rest) of None \<Rightarrow> c | Some d' \<Rightarrow> c\<lparr>detailedInfo := Some d'\<rparr>)"
  by (cases "last_row k rest") auto

lemma merge_views_with_detail:
  "merge_views (with_detail cols d) rest = merge_views cols (d # rest)"
proof (induction cols)
  case Nil
  show ?case by (simp add: merge_views_def with_detail_def)
next
  case (Cons a cols)
  obtain k c where a: "a = (k, c)" by (cases a)
  have "merge_views (with_detail (a # cols) d) rest =
        (k, case last_row k rest of
              None \<Rightarrow> (if k = column_name d then c\<lparr>detailedInfo := Some d\<rparr> else c)
            | Some d' \<Rightarrow>
                (if k = column_name d then c\<lparr>detailedInfo := Some d\<rparr> else c)
                  \<lparr>detailedInfo := Some d'\<rparr>)
        # merge_views (with_detail cols d) rest"
    by (simp add: a merge_views_def with_detail_def)
  also have "\<dots> =
        (k, case last_row k (d # rest) of None \<Rightarrow> c | Some d' \<Rightarrow> c\<lparr>detailedInfo := Some d'\<rparr>)
        # merge_views cols (d # rest)"
    by (simp only: merge_entry Cons.IH)
  also have "\<dots> = merge_views (a # cols) (d # rest)"
    by (simp add: a merge_views_def)
  finally show ?case .
qed

lemma merge_views_Nil: "merge_views concise [] = concise"
  by (induction concise) (auto simp add: merge_views_def)

lemma last_row_None:
  "\<not> list_ex (\<lambda>d. column_name d = k) detailed \<Longrightarrow> last_row k detailed = None"
  by (induction detailed) auto

lemma merge_views_keeps:
  assumes "(k, c) \<in> set concise" and "\<not> list_ex (\<lambda>d. column_name d = k) detailed"
  shows "(k, c) \<in> set (merge_views concise detailed)"
proof -
  have "(\<lambda>(k, c). (k, case last_row k detailed of
                        None \<Rightarrow> c
                      | Some d \<Rightarrow> c\<lparr>detailedInfo := Some d\<rparr>)) (k, c) = (k, c)"
    using last_row_None [OF assms(2)] by simp
  with assms(1) show ?thesis
    unfolding merge_views_def set_map by (metis (no_types, lifting) image_eqI)
qed

lemma getColumns_all_known:
  "list_all (\<lambda>d. column_name d \<in> set (map fst concise)) detailed \<Longrightarrow>
   getColumns p concise detailed = Inr (merge_views concise detailed, p)"
proof (induction detailed arbitrary: concise)
  case Nil
  show ?case by (simp add: merge_views_Nil)
next
  case (Cons d rest)
  from Cons.prems have d: "column_name d \<in> set (map fst concise)"
    and rest: "list_all (\<lambda>d'. column_name d' \<in> set (map fst (with_detail concise d))) rest"
    by (simp_all add: with_detail_keys)
  from Cons.IH [OF rest] d show ?case
    by (simp add: set_detailedInfo_own merge_views_with_detail del: last_row.simps)
qed

text \<open>
  C2. \<open>getColumns\<close> merges the concise view with the detailed rows, keyed by column name,
  and is claimed to fail whenever a concise column has no detailed row. It does not: with
  the concise columns \<open>price\<close> and \<open>status\<close> and a detailed row for \<open>price\<close> only, it
  returns both columns, \<open>status\<close> without \<open>detailedInfo\<close>.
\<close>

theorem getColumns_missing_detail_counterexample:
  "getColumns initial_prototype concise_columns [sample_detail] =
     Inr ([(''price'', sample_column), (''status'', status_column\<lparr>detailedInfo := None\<rparr>)],
          initial_prototype) \<and>
   map_of concise_columns ''status'' = Some (status_column\<lparr>detailedInfo := None\<rparr>) \<and>
   \<not> list_ex (\<lambda>d. column_name d = ''status'') [sample_detail]"
  by (simp add: concise_columns_def set_detailedInfo_def get_property_in_def sample_detail_def
      sample_column_def status_column_def)

text \<open>
  C2, amended. When every detailed row names a column of the concise view, \<open>getColumns\<close>
  returns the merge of the two views, keyed by column name, and writes nothing else. It
  raises no error for a concise column that has no detailed row: that column is returned
  as the concise view has it, without detailed metadata.
\<close>

theorem getColumns_merge:
  assumes "list_all (\<lambda>d. column_name d \<in> set (map fst concise)) detailed"
  shows "getColumns p concise detailed = Inr (merge_views concise detailed, p) \<and>
         (\<forall>k c. (k, c) \<in> set concise \<and> \<not> list_ex (\<lambda>d. column_name d = k) detailed \<longrightarrow>
                (k, c) \<in> set (merge_views concise detailed))"
  using getColumns_all_known [OF assms] merge_views_keeps by blast

theorem getColumns_merge_witness:
  "list_all (\<lambda>d. column_name d \<in> set (map fst concise_columns)) [status_detail] \<and>
   getColumns initial_prototype concise_columns [status_detail] =
     Inr ([(''price'', sample_column\<lparr>detailedInfo := None\<rparr>),
           (''status'', status_column\<lparr>detailedInfo := Some status_detail\<rparr>)],
          initial_prototype) \<and>
   \<not> list_ex (\<lambda>d. column_name d = ''price'') [status_detail] \<and>
   (''price'', sample_column\<lparr>detailedInfo := None\<rparr>)
     \<in> set (merge_views concise_columns [status_detail])"
proof -
  have known: "list_all (\<lambda>d. column_name d \<in> set (map fst concise_columns)) [status_detail]"
    by (simp add: concise_columns_def status_detail_def sample_detail_def)
  have merged: "merge_views concise_columns [status_detail] =
        [(''price'', sample_column\<lparr>detailedInfo := None\<rparr>),
         (''status'', status_column\<lparr>detailedInfo := Some status_detail\<rparr>)]"
    by (simp add: merge_views_def concise_columns_def status_detail_def sample_detail_def
        sample_column_def status_column_def)
  have none: "\<not> list_ex (\<lambda>d. column_name d = ''price'') [status_detail]"
    by (simp add: status_detail_def sample_detail_def)
  from getColumns_merge [OF known, of initial_prototype] known merged none
  show ?thesis by simp
qed

section \<open>Properties of the type mapper and the default-value normalizer\<close>

lemma getType_numeric: "getType (c\<lparr>type := ''numeric''\<rparr>) = Inr (Name ''decimal'', None)"
  by (simp add: getType_def lookup_defs)

lemma getType_integer:
  "type c = ''integer'' \<Longrightarrow>
   getType c =
     Inr (Name (if (case defaultValue c of None \<Rightarrow> False | Some d \<Rightarrow> take 7 d = ''nextval'')
                then ''increments'' else ''integer''), None)"
  by (auto simp add: getType_def lookup_defs split: option.splits)

text \<open>
  C1. A \<open>numeric\<close> column maps to \<open>decimal\<close>, and a recorded precision should come back as
  the one extra constructor argument. The mapper does return \<open>decimal\<close>, but the \<open>switch\<close>
  that adds the precision is labelled \<open>'numeric'\<close> while the variable it inspects holds
  \<open>'decimal'\<close>: for the column with precision 10 the extra arguments stay \<open>undefined\<close>.
  (\<open>getType_numeric\<close> shows the same for every \<open>numeric\<close> column.)
\<close>

theorem getType_numeric_precision_dropped:
  "type sample_column = ''numeric'' \<and>
   detailedInfo sample_column = Some sample_detail \<and>
   numeric_precision sample_detail = Some 10 \<and>
   getType sample_column = Inr (Name ''decimal'', None)"
  by (simp add: getType_def lookup_defs sample_column_def sample_detail_def)

lemma defaults_numeric_never:
  "match_quoted_literal d = None \<Longrightarrow>
   defaults lib (c\<lparr>type := ''numeric'', defaultValue := Some d\<rparr>) = (Inr [], [])"
  by (simp add: defaults_def getType_def lookup_defs)

text \<open>
  On an \<open>integer\<close> column the default is parsed: a parseable one gives its number, an
  unparseable one leads to \<open>getLogger().warn(...)\<close>, which throws.
\<close>

lemma defaults_integer:
  assumes "type c = ''integer''" and "defaultValue c = Some d" and "take 7 d \<noteq> ''nextval''"
    and "match_quoted_literal d = None"
  shows "defaults lib c =
     (case Number lib (remove_first_quote d) of
        NaN \<Rightarrow> (Inl TypeError, [])
      | Num r \<Rightarrow> (Inr (''.defaultTo('' @ r @ '')''), []))"
  using assms
  by (simp add: defaults_def getType_integer getLogger_throws_def split: js_number.splits)

text \<open>
  C3. A \<open>decimal\<close> or \<open>integer\<close> column whose default is not a quoted literal has the
  default parsed as a number, and an unparseable one gives no default clause and exactly one
  warning. The normalizer tests \<open>type === 'numeric'\<close>, a value the type mapper never returns
  (it returns \<open>'decimal'\<close>), so a \<open>numeric\<close> column never reaches the parse: for the default
  \<open>not_a_number\<close> it returns no clause and logs nothing, whatever \<open>Number\<close> does.
  (\<open>defaults_numeric_never\<close>: nor does a parseable default of a \<open>numeric\<close> column give a
  clause.)
\<close>

theorem defaults_numeric_unparseable_silent:
  "getType (sample_column\<lparr>defaultValue := Some ''not_a_number''\<rparr>)
     = Inr (Name ''decimal'', None) \<and>
   match_quoted_literal ''not_a_number'' = None \<and>
   defaults lib (sample_column\<lparr>defaultValue := Some ''not_a_number''\<rparr>) = (Inr [], [])"
  by (simp add: defaults_def getType_def lookup_defs sample_column_def match_quoted_literal_def)

text \<open>
  C7. An \<open>integer\<close> column whose default begins with \<open>nextval\<close> is typed \<open>increments\<close>
  with no extra constructor arguments, gets no default clause, and is emitted as
  \<open>table.increments('name')\<close> followed by the primary, nullability and index markers only.
\<close>

theorem increments_column:
  assumes "type c = ''integer''" and "defaultValue c = Some d" and "take 7 d = ''nextval''"
  shows "getType c = Inr (Name ''increments'', None) \<and>
         defaults lib c = (Inr [], []) \<and>
         column_clause lib tbl st name c =
           (Inr ([tab, tab, tab] @ ''table.increments('' @ [sq] @ name @ [sq] @ '')''
                 @ primary c @ nullable c @ indexed c @ '';'', st), [])"
  using assms
  by (simp add: getType_integer defaults_def column_clause_def type_text_def)

theorem increments_column_witness:
  "type serial_column = ''integer'' \<and>
   defaultValue serial_column =
     Some (''nextval('' @ [sq] @ ''products_id_seq'' @ [sq] @ ''::regclass)'') \<and>
   getType serial_column = Inr (Name ''increments'', None) \<and>
   defaults sample_library serial_column = (Inr [], []) \<and>
   column_clause sample_library sample_table ([], False) ''id'' serial_column =
     (Inr ([tab, tab, tab] @ ''table.increments('' @ [sq] @ ''id'' @ [sq] @ '').notNullable();'',
           ([], False)), [])"
  using increments_column [of serial_column
      "''nextval('' @ [sq] @ ''products_id_seq'' @ [sq] @ ''::regclass)''"
      sample_library sample_table "([], False)" "''id''"]
  by (simp add: serial_column_def sample_column_def primary_def nullable_def indexed_def)

lemma getType_boolean: "type c = ''boolean'' \<Longrightarrow> getType c = Inr (Name ''boolean'', None)"
  by (simp add: getType_def lookup_defs)

text \<open>
  On a \<open>boolean\<close> column whose default is not a quoted literal, the default with its first
  quote removed goes to \<open>tryParseJson\<close>; the result \<open>null\<close> leads to
  \<open>getLogger().warn(...)\<close>, which throws, and any other value is emitted.
\<close>

lemma defaults_boolean:
  assumes "type c = ''boolean''" and "defaultValue c = Some d"
    and "match_quoted_literal d = None"
  shows "defaults lib c =
     (if tryParseJson lib (remove_first_quote d) = JNull then (Inl TypeError, [])
      else (Inr (''.defaultTo('' @ to_text (tryParseJson lib (remove_first_quote d)) @ '')''),
            []))"
  using assms
  by (simp add: defaults_def getType_boolean getLogger_throws_def split: json.splits)

text \<open>
  C4. On a \<open>boolean\<close> column whose default is not a quoted literal, a parse that does not
  yield a boolean is to give a warning and no default clause. For the default
  \<open>is_admin()\<close>, which is not JSON, the code does reach its warning, but the statement is
  \<open>getLogger().warn(...)\<close> and \<open>getLogger\<close> is not defined: the call throws a TypeError,
  nothing is logged, and instead of an empty clause the column, and with it the table,
  ends in an error.
\<close>

theorem defaults_boolean_unparseable_throws:
  "type flag_column = ''boolean'' \<and>
   defaultValue flag_column = Some ''is_admin()'' \<and>
   match_quoted_literal ''is_admin()'' = None \<and>
   tryParseJson sample_library (remove_first_quote ''is_admin()'') = JNull \<and>
   defaults sample_library flag_column = (Inl TypeError, []) \<and>
   column_clause sample_library sample_table ([], False) ''is_admin'' flag_column =
     (Inl TypeError, [])"
  by (simp add: defaults_def column_clause_def getType_boolean flag_column_def
      sample_column_def sample_library_def match_quoted_literal_def remove_first_quote_def
      getLogger_throws_def)

subsection \<open>Quoted literals\<close>












section \<open>The index classifier\<close>

text \<open>
  An index on one column that exists is marked \<open>single\<close> and attached to the column; an
  index on more than one column is marked \<open>multiple\<close> and leaves the columns as they are.
  The table-level list keeps what is not \<open>single\<close>.
\<close>

lemma classify_index_found:
  assumes "indexed_columns i = [x]" and "strip_double_quotes x \<in> set (map fst cols)"
  shows "classify_index p cols i =
           Inr (i\<lparr>single := True\<rparr>,
                set_index cols (strip_double_quotes x) (i\<lparr>single := True\<rparr>), p)"
  using assms by (simp add: classify_index_def get_property_in_own)

lemma map_of_set_index:
  "map_of cols k = Some col \<Longrightarrow>
   map_of (set_index cols k i) k = Some (col\<lparr>index := Some i\<rparr>)"
  by (induction cols) (auto simp add: set_index_def split: if_splits)

lemma classify_index_multiple:
  assumes "1 < length (indexed_columns i)"
  shows "classify_index p cols i = Inr (i\<lparr>multiple := True\<rparr>, cols, p)"
  using assms by (simp add: classify_index_def)

lemma table_level_indexes_keeps:
  "i \<in> set (table_level_indexes idxs) \<longleftrightarrow> i \<in> set idxs \<and> \<not> single i"
  by (simp add: table_level_indexes_def)

text \<open>
  C8. A fetched index on one column that is not found among the columns is to be marked
  unresolved, logged and left out of the emission, without a fatal error. The index on
  the expression \<open>lower(status)\<close> is such an index: the catalog reports the text of the
  expression as its one indexed column, and the table has no column of that name. The
  code sets \<open>i.error\<close> and goes to \<open>getLogger().warn(...)\<close>; \<open>getLogger\<close> is not defined,
  so the call throws a TypeError, nothing is logged, and the classification of the
  table's indexes, and with it the run, ends in that error.
\<close>

theorem functional_index_unresolved_throws:
  "indexed_columns lower_index = [''lower(status)''] \<and>
   strip_double_quotes ''lower(status)'' \<notin> set (map fst sample_columns) \<and>
   classify_index initial_prototype sample_columns lower_index = Inl TypeError \<and>
   classify_indexes initial_prototype sample_columns [status_index, lower_index, pair_index]
     = Inl TypeError"
  by (simp add: classify_index_def get_property_in_def inherited_names_def
      initial_prototype_def lower_index_def status_index_def pair_index_def
      sample_columns_def strip_double_quotes_def set_index_def getLogger_throws_def Let_def)

section \<open>The table definition emitter\<close>

lemma primary_values: "primary c = [] \<or> primary c = ''.primary()''"
  by (simp add: primary_def split: option.splits)

lemma nullable_values:
  "nullable c = [] \<or> nullable c = ''.nullable()'' \<or> nullable c = ''.notNullable()''"
  by (simp add: nullable_def split: option.splits)

lemma indexed_values: "indexed c = [] \<or> indexed c = ''.unique()'' \<or> indexed c = ''.index()''"
  by (simp add: indexed_def split: option.splits)

lemma defaults_values:
  "fst (defaults lib c) = Inr d \<Longrightarrow> d = [] \<or> (\<exists>v. d = ''.defaultTo('' @ v @ '')'')"
  unfolding defaults_def
  by (auto split: option.splits sum.splits if_splits js_number.splits json.splits)

lemma attached_markers:
  "index c = Some i \<Longrightarrow> single i \<Longrightarrow>
   (if is_primary i then primary c = ''.primary()'' \<and> nullable c = [] \<and> indexed c = []
    else primary c = [] \<and> indexed c = (if is_unique i then ''.unique()'' else ''.index()''))"
  by (simp add: primary_def nullable_def indexed_def)

lemma column_clause_text:
  assumes "column_clause lib tbl st name c = (Inr (text, st2), w)"
  shows "\<exists>t ps d. getType c = Inr (t, ps) \<and> fst (defaults lib c) = Inr d \<and>
     text = ([tab, tab, tab] @ ''table.'' @ type_text t @ ''('' @ [sq] @ name @ [sq]
             @ (case ps of
                  Some (p # q) \<Rightarrow> '', '' @ join '', '' (map param_text (p # q))
                | _ \<Rightarrow> [])
             @ '')'')
            @ primary c @ nullable c @ d @ indexed c @ '';''"
proof (cases "getType c")
  case (Inl e)
  with assms show ?thesis by (simp add: column_clause_def)
next
  case (Inr p)
  obtain t ps where p: "p = (t, ps)" by (cases p)
  show ?thesis
  proof (cases "defaults lib c")
    case (Pair r w2)
    show ?thesis
    proof (cases r)
      case (Inl e)
      with assms Inr p Pair show ?thesis
        by (simp add: column_clause_def Let_def split: prod.splits if_splits)
    next
      case d: (Inr d)
      with assms Inr p Pair have
        "text = [tab, tab, tab] @ ''table.'' @ type_text t @ ''('' @ [sq] @ name @ [sq]
             @ (case ps of
                  Some (p # q) \<Rightarrow> '', '' @ join '', '' (map param_text (p # q))
                | _ \<Rightarrow> [])
             @ '')'' @ primary c @ nullable c @ d @ indexed c @ '';''"
        by (simp add: column_clause_def Let_def split: prod.splits if_splits)
      with Inr p Pair d show ?thesis by simp
    qed
  qed
qed

text \<open>
  C9. Every emitted column clause is, in this order, the base type constructor, the primary
  marker, the nullability marker, the default-value marker and the single-column index
  marker, closed by a semicolon. With an attached single-column index that is primary the
  clause has \<open>.primary()\<close> and neither a nullability nor a uniqueness or index marker; with
  one that is not primary it has no primary marker and exactly one of \<open>.unique()\<close> (the
  index is unique) and \<open>.index()\<close> (it is not).
\<close>

theorem column_clause_order:
  assumes "column_clause lib tbl st name c = (Inr (text, st2), w)"
  shows "\<exists>t ps d. getType c = Inr (t, ps) \<and> fst (defaults lib c) = Inr d \<and>
     text = ([tab, tab, tab] @ ''table.'' @ type_text t @ ''('' @ [sq] @ name @ [sq]
             @ (case ps of
                  Some (p # q) \<Rightarrow> '', '' @ join '', '' (map param_text (p # q))
                | _ \<Rightarrow> [])
             @ '')'')
            @ primary c @ nullable c @ d @ indexed c @ '';'' \<and>
     (primary c = [] \<or> primary c = ''.primary()'') \<and>
     (nullable c = [] \<or> nullable c = ''.nullable()'' \<or> nullable c = ''.notNullable()'') \<and>
     (d = [] \<or> (\<exists>v. d = ''.defaultTo('' @ v @ '')'')) \<and>
     (indexed c = [] \<or> indexed c = ''.unique()'' \<or> indexed c = ''.index()'') \<and>
     (\<forall>i. index c = Some i \<and> single i \<longrightarrow>
        (if is_primary i
         then primary c = ''.primary()'' \<and> nullable c = [] \<and> indexed c = []
         else primary c = [] \<and>
              indexed c = (if is_unique i then ''.unique()'' else ''.index()'')))"
proof -
  from column_clause_text [OF assms] obtain t ps d where
    t: "getType c = Inr (t, ps)" and d: "fst (defaults lib c) = Inr d" and
    shape: "text = ([tab, tab, tab] @ ''table.'' @ type_text t @ ''('' @ [sq] @ name @ [sq]
             @ (case ps of
                  Some (p # q) \<Rightarrow> '', '' @ join '', '' (map param_text (p # q))
                | _ \<Rightarrow> [])
             @ '')'')
            @ primary c @ nullable c @ d @ indexed c @ '';''"
    by blast
  have "\<forall>i. index c = Some i \<and> single i \<longrightarrow>
        (if is_primary i
         then primary c = ''.primary()'' \<and> nullable c = [] \<and> indexed c = []
         else primary c = [] \<and>
              indexed c = (if is_unique i then ''.unique()'' else ''.index()''))"
    using attached_markers by blast
  with t d shape primary_values [of c] nullable_values [of c] indexed_values [of c]
    defaults_values [OF d]
  show ?thesis by blast
qed

theorem column_clause_order_witness:
  "column_clause sample_library sample_table ([], False) ''status''
     (status_column\<lparr>index := Some (status_index\<lparr>single := True\<rparr>)\<rparr>) =
     (Inr ([tab, tab, tab] @ ''table.text('' @ [sq] @ ''status'' @ [sq] @ '')''
           @ ''.notNullable()'' @ (''.defaultTo('' @ [sq] @ ''active'' @ [sq] @ '')'')
           @ ''.unique()'' @ '';'', ([], False)), []) \<and>
   primary (status_column\<lparr>index := Some (status_index\<lparr>single := True\<rparr>)\<rparr>) = [] \<and>
   nullable (status_column\<lparr>index := Some (status_index\<lparr>single := True\<rparr>)\<rparr>)
     = ''.notNullable()'' \<and>
   indexed (status_column\<lparr>index := Some (status_index\<lparr>single := True\<rparr>)\<rparr>) = ''.unique()''"
proof -
  have run: "column_clause sample_library sample_table ([], False) ''status''
     (status_column\<lparr>index := Some (status_index\<lparr>single := True\<rparr>)\<rparr>) =
     (Inr ([tab, tab, tab] @ ''table.text('' @ [sq] @ ''status'' @ [sq] @ '')''
           @ ''.notNullable()'' @ (''.defaultTo('' @ [sq] @ ''active'' @ [sq] @ '')'')
           @ ''.unique()'' @ '';'', ([], False)), [])"
    by (simp add: column_clause_def defaults_def getType_def lookup_defs status_column_def
        sample_column_def status_index_def match_quoted_literal_def quoted_rest_def
        word_space_to_end_def is_word_def is_space_def is_dot_def primary_def nullable_def
        indexed_def type_text_def)
  from column_clause_order [OF run] show ?thesis
    using run
    by (simp add: primary_def nullable_def indexed_def status_column_def sample_column_def
        status_index_def)
qed

section \<open>Fatal errors\<close>

lemma getType_unmapped:
  assumes "type c \<notin> set (map fst type_map)" and "type c \<notin> set inherited_names"
  shows "getType c = Inl InvalidType"
proof -
  from assms(1) have "map_of type_map (type c) = None"
    by (simp add: map_of_eq_None_iff)
  with assms(2) show ?thesis
    by (simp add: getType_def get_property_def)
qed

lemma column_clause_getType_error:
  "getType c = Inl e \<Longrightarrow> column_clause lib tbl st name c = (Inl e, [])"
  by (simp add: column_clause_def)

lemma column_clauses_error:
  "(name, c) \<in> set cols \<Longrightarrow> getType c = Inl e \<Longrightarrow>
   \<exists>e2. fst (column_clauses lib tbl st cols) = Inl e2"
proof (induction cols arbitrary: st)
  case Nil
  then show ?case by simp
next
  case (Cons a cols)
  obtain k v where a: "a = (k, v)" by (cases a)
  show ?case
  proof (cases "column_clause lib tbl st k v")
    case (Pair r w)
    show ?thesis
    proof (cases r)
      case (Inl e1)
      with Pair a show ?thesis by simp
    next
      case (Inr p)
      obtain cl st2 where p: "p = (cl, st2)" by (cases p)
      from Inr Pair Cons.prems a have "(name, c) \<in> set cols"
        by (auto simp add: column_clause_getType_error)
      from Cons.IH [OF this Cons.prems(2), of st2] obtain e2 where
        "fst (column_clauses lib tbl st2 cols) = Inl e2" by blast
      with Pair Inr p a show ?thesis
        by (cases "column_clauses lib tbl st2 cols") (auto split: sum.splits)
    qed
  qed
qed

lemma singleTableGenerator_error:
  "(name, c) \<in> set cols \<Longrightarrow> getType c = Inl e \<Longrightarrow>
   \<exists>e2. fst (singleTableGenerator lib tbl cols idx) = Inl e2"
  using column_clauses_error [of name c cols e lib tbl "([], False)"]
  by (cases "column_clauses lib tbl ([], False) cols")
     (auto simp add: singleTableGenerator_def split: sum.splits)

text \<open>
  C6. For every column whose raw catalog type is outside the mapping table, the type
  mapper throws its \<open>invalid type\<close> error, and the generation of a table that has such a
  column ends in an error. A raw catalog type is an SQL type name (or \<open>ARRAY\<close>, or
  \<open>USER-DEFINED\<close>): none is the name of a property that every object inherits, which the
  lookup in the table, an object literal, would find.
\<close>

theorem unsupported_type_fatal:
  assumes out: "type c \<notin> set (map fst type_map)" and plain: "type c \<notin> set inherited_names"
  shows "getType c = Inl InvalidType \<and>
         column_clause lib tbl st name c = (Inl InvalidType, []) \<and>
         ((name, c) \<in> set cols \<longrightarrow>
            (\<exists>e. fst (singleTableGenerator lib tbl cols idx) = Inl e))"
proof (intro conjI impI)
  show bad: "getType c = Inl InvalidType" using out plain by (rule getType_unmapped)
  show "column_clause lib tbl st name c = (Inl InvalidType, [])"
    using bad by (rule column_clause_getType_error)
  show "\<exists>e. fst (singleTableGenerator lib tbl cols idx) = Inl e" if "(name, c) \<in> set cols"
    using that bad by (rule singleTableGenerator_error)
qed

theorem unsupported_type_fatal_witness:
  "type (sample_column\<lparr>type := ''bigint''\<rparr>) \<notin> set (map fst type_map) \<and>
   type (sample_column\<lparr>type := ''bigint''\<rparr>) \<notin> set inherited_names \<and>
   getType (sample_column\<lparr>type := ''bigint''\<rparr>) = Inl InvalidType \<and>
   column_clause sample_library sample_table ([], False) ''views''
     (sample_column\<lparr>type := ''bigint''\<rparr>) = (Inl InvalidType, []) \<and>
   (\<exists>e. fst (singleTableGenerator sample_library sample_table
               [(''views'', sample_column\<lparr>type := ''bigint''\<rparr>)] []) = Inl e)"
  using unsupported_type_fatal [of "sample_column\<lparr>type := ''bigint''\<rparr>" sample_library
      sample_table "([], False)" "''views''"
      "[(''views'', sample_column\<lparr>type := ''bigint''\<rparr>)]" "[]"]
  by (simp add: lookup_defs)

section \<open>The production guard of the lifecycle functions\<close>

text \<open>
  Outside production the functions do act on the database: dropping the development
  database of the sample state connects, cuts the other sessions, drops and disconnects.
\<close>

lemma dropDb_development_acts:
  "actions (snd (dropDb sample_world (Some ''development''))) =
     [Connect (sample_config\<lparr>database := Some ''postgres''\<rparr>),
      Raw (ConnectionLimit ''shop''), Raw (TerminateBackends ''shop''),
      Raw (DropDatabase ''shop''),
      Destroy (sample_config\<lparr>database := Some ''postgres''\<rparr>)]"
  by (simp add: dropDb_def sample_world_def sample_config_def getKnexFile_def get_property_def
      key_of_def put_config_def raw_def Let_def)

text \<open>
  C10. \<open>dropDb\<close> throws, with the state as it was (no action performed, nothing logged,
  no configuration touched), when \<open>NODE_ENV\<close> or the environment passed is \<open>production\<close>.
  \<open>copyDb\<close>, \<open>copyDbForTest\<close> and \<open>rollbackCopyDbForTest\<close> do so when their target
  environment is \<open>production\<close>: the one passed or, when none is passed, \<open>NODE_ENV\<close>.
\<close>

theorem production_guard:
  "(NODE_ENV w = Some ''production'' \<or> env = Some ''production'' \<longrightarrow>
      dropDb w env = (Inl Production, w)) \<and>
   (env = Some ''production'' \<or>
    ((env = None \<or> env = Some []) \<and> NODE_ENV w = Some ''production'') \<longrightarrow>
      copyDb w oldDbName newDbName env = (Inl Production, w) \<and>
      copyDbForTest w env = (Inl Production, w) \<and>
      rollbackCopyDbForTest w env = (Inl Production, w))"
  by (auto simp add: dropDb_def copyDb_def copyDbForTest_def rollbackCopyDbForTest_def
      env_or_NODE_ENV_def)

theorem production_guard_witness:
  "dropDb sample_world (Some ''production'') = (Inl Production, sample_world) \<and>
   dropDb (sample_world\<lparr>NODE_ENV := Some ''production''\<rparr>) (Some ''development'') =
     (Inl Production, sample_world\<lparr>NODE_ENV := Some ''production''\<rparr>) \<and>
   copyDb sample_world ''shop'' ''shop_copy'' (Some ''production'') =
     (Inl Production, sample_world) \<and>
   copyDbForTest sample_world (Some ''production'') = (Inl Production, sample_world) \<and>
   rollbackCopyDbForTest sample_world (Some ''production'') = (Inl Production, sample_world) \<and>
   actions sample_world = []"
  using production_guard [of sample_world "Some ''production''" "''shop''" "''shop_copy''"]
    production_guard [of "sample_world\<lparr>NODE_ENV := Some ''production''\<rparr>"
      "Some ''development''"]
  by (simp add: sample_world_def)

end
